theory Spec2Isabelle
  imports Main "HOL-Library.Word"
begin

unbundle bit_operations_syntax

section \<open>The MAX78000 SPI driver of no-OS (maxim\_spi.c)\<close>

text \<open>
  A shallow embedding of \<^verbatim>\<open>drivers/platform/maxim/max78000/maxim_spi.c\<close>:
  \<^verbatim>\<open>_max_delay_config\<close>, \<^verbatim>\<open>_max_spi_config\<close>, \<^verbatim>\<open>max_spi_transfer\<close> and
  \<^verbatim>\<open>max_spi_write_and_read\<close>.

  \<^item> \<^verbatim>\<open>uint32_t\<close>, \<^verbatim>\<open>uint16_t\<close> and \<^verbatim>\<open>uint8_t\<close> are words: \<open>*\<close> and \<open>+\<close> wrap around,
    \<open>div\<close> truncates, comparisons are unsigned.
  \<^item> \<^verbatim>\<open>int32_t\<close> return codes are \<open>int\<close>; the driver only compares and negates them.
  \<^item> A pointer is a 32-bit address, \<open>0\<close> for \<^verbatim>\<open>NULL\<close>. The descriptor and the message
    array, which the driver tests against \<^verbatim>\<open>NULL\<close>, are \<open>option\<close> values.
  \<^item> The mutable state is a record \<open>world\<close>: the \<^verbatim>\<open>sstime\<close> register of every SPI
    instance, the function-static table \<^verbatim>\<open>last_slave_id\<close>, the driver states that
    \<^verbatim>\<open>desc->extra\<close> points to (a store indexed by address), and the list of calls made
    to the vendor library, the delay routine and the logger, in order.
  \<^item> A name cannot start with an underscore here: \<^verbatim>\<open>_max_delay_config\<close> and
    \<^verbatim>\<open>_max_spi_config\<close> are \<open>max_delay_config\<close> and \<open>max_spi_config\<close>. The fields
    \<^verbatim>\<open>cs_delay_first\<close> and \<^verbatim>\<open>cs_delay_last\<close> of the driver state, which share their names
    with fields of a message, are \<open>st_cs_delay_first\<close> and \<open>st_cs_delay_last\<close>.
  \<^item> What the C standard leaves undefined (a division by zero, an index beyond the
    array, a register access through the \<^verbatim>\<open>NULL\<close> that \<^verbatim>\<open>MXC_SPI_GET_SPI\<close> gives for a
    bad instance) is the result \<open>None\<close>.
\<close>

type_synonym u8 = "8 word"
type_synonym u16 = "16 word"
type_synonym u32 = "32 word"
type_synonym ptr = "32 word"

subsection \<open>Constants of the source file\<close>

definition SPI_MASTER_MODE :: nat where
  "SPI_MASTER_MODE = 1"

definition SPI_SINGLE_MODE :: nat where
  "SPI_SINGLE_MODE = 0"

definition MAX_DELAY_SCLK :: u32 where
  "MAX_DELAY_SCLK = 255"

definition NS_PER_US :: u32 where
  "NS_PER_US = 1000"

subsection \<open>What the headers declare\<close>

text \<open>
  The headers are not part of the sources at hand. The constants of the vendor library and
  of \<^verbatim>\<open>errno.h\<close> are parameters of the model, collected in a record; \<open>max78000\<close> below
  is the instance with the values of the MAX78000 headers, used for concrete runs only.
\<close>

record platform =
  E_BAD_PARAM :: int
  E_BAD_STATE :: int
  EINVAL :: int
  EBUSY :: int
  MXC_SPI_INSTANCES :: nat
  MXC_F_SPI_SSTIME_PRE :: u32
  MXC_F_SPI_SSTIME_POST :: u32

definition max78000 :: platform where
  "max78000 = \<lparr> E_BAD_PARAM = - 3, E_BAD_STATE = - 7, EINVAL = 22, EBUSY = 16,
     MXC_SPI_INSTANCES = 2, MXC_F_SPI_SSTIME_PRE = 0xFF, MXC_F_SPI_SSTIME_POST = 0xFF00 \<rparr>"

text \<open>Modelled from the spec: \<^verbatim>\<open>NANO\<close> of \<^verbatim>\<open>no_os_units.h\<close> is not among the sources; it
  is the number of nanoseconds in a second, from which the clock tick period in
  nanoseconds is derived.\<close>

definition NANO :: u32 where
  "NANO = 1000000000"

text \<open>Modelled from the spec: the macro \<^verbatim>\<open>NO_OS_DIV_ROUND_CLOSEST\<close> of \<^verbatim>\<open>no_os_util.h\<close> is
  not among the sources; it is the integer division rounded to the nearest,
  \<^verbatim>\<open>((x) + (y) / 2) / (y)\<close>, here on \<^verbatim>\<open>uint32_t\<close> operands. A zero divisor is undefined.\<close>

definition NO_OS_DIV_ROUND_CLOSEST :: "u32 \<Rightarrow> u32 \<Rightarrow> u32 option" where
  "NO_OS_DIV_ROUND_CLOSEST x y = (if y = 0 then None else Some ((x + y div 2) div y))"

text \<open>Modelled from the spec: \<^verbatim>\<open>no_os_find_first_set_bit\<close> and \<^verbatim>\<open>no_os_field_prep\<close> of
  \<^verbatim>\<open>no_os_util\<close> are not among the sources. The first is the index of the lowest set bit
  of a word (32 for the word 0), found by shifting right; the second puts a value into the
  field that a mask selects: the value shifted to the mask's lowest bit, and masked.\<close>

function no_os_find_first_set_bit_loop :: "u32 \<Rightarrow> nat \<Rightarrow> nat" where
  "no_os_find_first_set_bit_loop w first_set_bit =
     (if w \<noteq> 0 then
        (if w AND 1 \<noteq> 0 then first_set_bit
         else no_os_find_first_set_bit_loop (drop_bit 1 w) (first_set_bit + 1))
      else 32)"
  by pat_completeness auto
termination
proof (relation "measure (\<lambda>(w, n). unat w)")
  show "wf (measure (\<lambda>(w :: u32, n :: nat). unat w))"
    by simp
next
  fix w :: u32 and first_set_bit :: nat
  assume "w \<noteq> 0"
  then have "0 < unat w"
    by (simp add: unat_gt_0)
  then have "unat w div 2 < unat w"
    by simp
  then show "((drop_bit 1 w, first_set_bit + 1), (w, first_set_bit))
      \<in> measure (\<lambda>(w, n). unat w)"
    by (simp add: drop_bit_eq_div unat_div)
qed

definition no_os_find_first_set_bit :: "u32 \<Rightarrow> nat" where
  "no_os_find_first_set_bit w = no_os_find_first_set_bit_loop w 0"

definition no_os_field_prep :: "u32 \<Rightarrow> u32 \<Rightarrow> u32" where
  "no_os_field_prep msk val = push_bit (no_os_find_first_set_bit msk) val AND msk"

text \<open>Reading a field back, the inverse of \<open>no_os_field_prep\<close> on values that fit: used
  only to state what a register holds.\<close>

definition no_os_field_get :: "u32 \<Rightarrow> u32 \<Rightarrow> u32" where
  "no_os_field_get msk w = drop_bit (no_os_find_first_set_bit msk) (w AND msk)"

subsection \<open>Data\<close>

text \<open>\<^verbatim>\<open>struct max_spi_init_param\<close>: the fields that the driver reads.\<close>

record max_spi_init_param =
  numSlaves :: u32
  polarity :: nat
  vssel :: nat

text \<open>\<^verbatim>\<open>struct max_spi_state\<close>, the object behind \<^verbatim>\<open>desc->extra\<close>: the initialisation
  parameters and the chip-select delays last applied.\<close>

record max_spi_state =
  init_param :: max_spi_init_param
  st_cs_delay_first :: u32
  st_cs_delay_last :: u32

text \<open>\<^verbatim>\<open>enum no_os_spi_mode\<close>; a C enum can hold any other value too, which the driver's
  \<^verbatim>\<open>switch\<close> sends to its \<^verbatim>\<open>default\<close> branch.\<close>

datatype no_os_spi_mode =
  NO_OS_SPI_MODE_0 | NO_OS_SPI_MODE_1 | NO_OS_SPI_MODE_2 | NO_OS_SPI_MODE_3
  | NO_OS_SPI_MODE_OTHER nat

datatype mxc_spi_mode_t = SPI_MODE_0 | SPI_MODE_1 | SPI_MODE_2 | SPI_MODE_3

datatype mxc_spi_width_t = SPI_WIDTH_STANDARD

text \<open>\<^verbatim>\<open>struct no_os_spi_desc\<close>: \<open>extra\<close> is the address of the driver state.\<close>

record no_os_spi_desc =
  device_id :: u32
  max_speed_hz :: u32
  chip_select :: u8
  mode :: no_os_spi_mode
  extra :: nat

text \<open>\<^verbatim>\<open>struct no_os_spi_msg\<close>.\<close>

record no_os_spi_msg =
  tx_buff :: ptr
  rx_buff :: ptr
  bytes_number :: u32
  cs_change :: u8
  cs_change_delay :: u32
  cs_delay_first :: u32
  cs_delay_last :: u32

text \<open>\<^verbatim>\<open>mxc_spi_pins_t\<close> and \<^verbatim>\<open>mxc_spi_req_t\<close> of the vendor library; \<open>spi\<close> is the
  instance whose register block \<^verbatim>\<open>MXC_SPI_GET_SPI\<close> gives.\<close>

record mxc_spi_pins_t =
  clock :: bool
  ss0 :: bool
  ss1 :: bool
  ss2 :: bool
  miso :: bool
  mosi :: bool
  sdio2 :: bool
  sdio3 :: bool
  vddioh :: nat

record mxc_spi_req_t =
  spi :: u32
  ssIdx :: u8
  ssDeassert :: u8
  txData :: ptr
  rxData :: ptr
  txLen :: u32
  rxLen :: u32
  txCnt :: u32
  rxCnt :: u32

text \<open>The calls that leave the driver, with their arguments.\<close>

datatype hw_op =
  MXC_SPI_Init u32 nat nat u32 nat u32 mxc_spi_pins_t
  | MXC_SPI_SetMode u32 mxc_spi_mode_t
  | MXC_SPI_SetWidth u32 mxc_spi_width_t
  | MXC_SPI_SetDataSize u32 nat
  | MXC_SPI_Shutdown u32
  | MXC_SPI_MasterTransaction mxc_spi_req_t
  | no_os_udelay u32
  | pr_warning string

text \<open>The vendor library is a parameter: the code that a call returns, which may depend on
  all the calls made before it, and the peripheral clock rate of an instance. What a call
  does to the peripheral and to the buffers is not modelled: a call adds its entry to the
  trace, and the driver alone writes \<^verbatim>\<open>sstime\<close>, the table and the driver states.\<close>

record hal =
  call_ret :: "hw_op list \<Rightarrow> hw_op \<Rightarrow> int"
  MXC_SPI_GetPeripheralClock :: "u32 \<Rightarrow> u32"

record world =
  sstime :: "u32 \<Rightarrow> u32"
  last_slave_id :: "u32 \<Rightarrow> u32"
  states :: "nat \<Rightarrow> max_spi_state"
  trace :: "hw_op list"

definition vendor_call :: "hal \<Rightarrow> hw_op \<Rightarrow> world \<Rightarrow> int \<times> world" where
  "vendor_call h op w = (call_ret h (trace w) op, w\<lparr>trace := trace w @ [op]\<rparr>)"

definition void_call :: "hw_op \<Rightarrow> world \<Rightarrow> world" where
  "void_call op w = w\<lparr>trace := trace w @ [op]\<rparr>"

subsection \<open>\<^verbatim>\<open>_max_delay_config\<close>\<close>

text \<open>The two tick computations, lines 97--100 and 115--118 of the source. The second
  tests \<^verbatim>\<open>msg->cs_delay_first\<close>, as the source does. A zero tick period is a division by
  zero.\<close>

definition ticks_delay_first :: "u32 \<Rightarrow> no_os_spi_msg \<Rightarrow> u32 option" where
  "ticks_delay_first ticks_ns msg =
     (if cs_delay_first msg = 0 then Some 1
      else if ticks_ns = 0 then None
      else Some (cs_delay_first msg * NS_PER_US div ticks_ns))"

definition ticks_delay_last :: "u32 \<Rightarrow> no_os_spi_msg \<Rightarrow> u32 option" where
  "ticks_delay_last ticks_ns msg =
     (if cs_delay_first msg = 0 then Some 1
      else if ticks_ns = 0 then None
      else Some (cs_delay_last msg * NS_PER_US div ticks_ns))"

text \<open>\<^verbatim>\<open>spi->sstime &= ~field; spi->sstime |= no_os_field_prep(field, ticks_delay)\<close>.\<close>

definition sstime_write :: "u32 \<Rightarrow> u32 \<Rightarrow> u32 \<Rightarrow> world \<Rightarrow> world" where
  "sstime_write dev field ticks_delay w =
     w\<lparr>sstime := (sstime w)(dev := (sstime w dev AND NOT field) OR no_os_field_prep field ticks_delay)\<rparr>"

text \<open>The label \<^verbatim>\<open>error\<close>: the register gets back the value read on entry.\<close>

definition delay_error :: "u32 \<Rightarrow> u32 \<Rightarrow> world \<Rightarrow> world" where
  "delay_error dev sstime_cache w = w\<lparr>sstime := (sstime w)(dev := sstime_cache)\<rparr>"

definition delay_last_part ::
    "platform \<Rightarrow> no_os_spi_desc \<Rightarrow> no_os_spi_msg \<Rightarrow> u32 \<Rightarrow> u32 \<Rightarrow> world \<Rightarrow> world option" where
  "delay_last_part p desc msg sstime_cache ticks_ns w =
     (let st = states w (extra desc); dev = device_id desc in
      if cs_delay_last msg \<noteq> st_cs_delay_last st then
        (case ticks_delay_last ticks_ns msg of
           None \<Rightarrow> None
         | Some ticks_delay \<Rightarrow>
             if ticks_delay > MAX_DELAY_SCLK then
               Some (delay_error dev sstime_cache
                 (void_call (pr_warning ''cs_delay_last value is too high\<newline>'') w))
             else
               (let w1 = sstime_write dev (MXC_F_SPI_SSTIME_POST p) ticks_delay w in
                Some (w1\<lparr>states := (states w1)(extra desc :=
                  st\<lparr>st_cs_delay_first := cs_delay_first msg,
                     st_cs_delay_last := cs_delay_last msg\<rparr>)\<rparr>)))
      else
        Some (w\<lparr>states := (states w)(extra desc :=
          st\<lparr>st_cs_delay_first := cs_delay_first msg,
             st_cs_delay_last := cs_delay_last msg\<rparr>)\<rparr>))"

definition max_delay_config ::
    "platform \<Rightarrow> hal \<Rightarrow> no_os_spi_desc \<Rightarrow> no_os_spi_msg \<Rightarrow> world \<Rightarrow> world option" where
  "max_delay_config p h desc msg w =
     (let st = states w (extra desc); dev = device_id desc in
      if cs_delay_first msg = st_cs_delay_first st \<and> cs_delay_last msg = st_cs_delay_last st
      then Some w
      else if \<not> unat dev < MXC_SPI_INSTANCES p then None
      else
        (let sstime_cache = sstime w dev;
             clk_rate = MXC_SPI_GetPeripheralClock h dev
         in case NO_OS_DIV_ROUND_CLOSEST NANO clk_rate of
              None \<Rightarrow> None
            | Some ticks_ns \<Rightarrow>
                if cs_delay_first msg \<noteq> st_cs_delay_first st then
                  (case ticks_delay_first ticks_ns msg of
                     None \<Rightarrow> None
                   | Some ticks_delay \<Rightarrow>
                       if ticks_delay > MAX_DELAY_SCLK then
                         Some (delay_error dev sstime_cache
                           (void_call (pr_warning ''cs_delay_first value is too high\<newline>'') w))
                       else
                         delay_last_part p desc msg sstime_cache ticks_ns
                           (sstime_write dev (MXC_F_SPI_SSTIME_PRE p) ticks_delay w))
                else delay_last_part p desc msg sstime_cache ticks_ns w))"

subsection \<open>\<^verbatim>\<open>_max_spi_config\<close>\<close>

text \<open>The \<^verbatim>\<open>switch\<close> on \<^verbatim>\<open>desc->mode\<close>: modes 1 and 2 are exchanged, modes 0 and 3 are
  cast, any other value leaves the function with \<^verbatim>\<open>-EINVAL\<close>.\<close>

definition mode_switch :: "no_os_spi_mode \<Rightarrow> mxc_spi_mode_t option" where
  "mode_switch m =
     (case m of
        NO_OS_SPI_MODE_1 \<Rightarrow> Some SPI_MODE_2
      | NO_OS_SPI_MODE_2 \<Rightarrow> Some SPI_MODE_1
      | NO_OS_SPI_MODE_0 \<Rightarrow> Some SPI_MODE_0
      | NO_OS_SPI_MODE_3 \<Rightarrow> Some SPI_MODE_3
      | NO_OS_SPI_MODE_OTHER _ \<Rightarrow> None)"

text \<open>The label \<^verbatim>\<open>err_init\<close>, reached with \<^verbatim>\<open>ret = -EINVAL\<close>.\<close>

definition err_init :: "platform \<Rightarrow> u32 \<Rightarrow> world \<Rightarrow> int \<times> world" where
  "err_init p dev w = (- EINVAL p, void_call (MXC_SPI_Shutdown dev) w)"

definition max_spi_config :: "platform \<Rightarrow> hal \<Rightarrow> no_os_spi_desc \<Rightarrow> world \<Rightarrow> int \<times> world" where
  "max_spi_config p h desc w =
     (let eparam = init_param (states w (extra desc));
          dev = device_id desc;
          spi_pins_config = \<lparr> clock = True,
            ss0 = (chip_select desc = 0), ss1 = (chip_select desc = 1),
            ss2 = (chip_select desc = 2), miso = True, mosi = True,
            sdio2 = False, sdio3 = False, vddioh = vssel eparam \<rparr>
      in case vendor_call h (MXC_SPI_Init dev SPI_MASTER_MODE SPI_SINGLE_MODE
                (numSlaves eparam) (polarity eparam) (max_speed_hz desc) spi_pins_config) w of
        (ret, w1) \<Rightarrow>
          if ret \<noteq> 0 then err_init p dev w1
          else
            (case mode_switch (mode desc) of
               None \<Rightarrow> (- EINVAL p, w1)
             | Some m \<Rightarrow>
                 (case vendor_call h (MXC_SPI_SetMode dev m) w1 of
                    (ret, w2) \<Rightarrow>
                      if ret \<noteq> 0 then err_init p dev w2
                      else
                        (case vendor_call h (MXC_SPI_SetWidth dev SPI_WIDTH_STANDARD) w2 of
                           (ret, w3) \<Rightarrow>
                             if ret \<noteq> 0 then err_init p dev w3
                             else
                               (case vendor_call h (MXC_SPI_SetDataSize dev 8) w3 of
                                  (ret, w4) \<Rightarrow>
                                    if ret \<noteq> 0 then err_init p dev w4
                                    else (0, w4))))))"

subsection \<open>\<^verbatim>\<open>max_spi_transfer\<close>\<close>

text \<open>The request that the loop body fills in for a message.\<close>

definition transfer_req :: "no_os_spi_desc \<Rightarrow> no_os_spi_msg \<Rightarrow> mxc_spi_req_t" where
  "transfer_req desc msg =
     \<lparr> spi = device_id desc, ssIdx = chip_select desc, ssDeassert = cs_change msg,
       txData = tx_buff msg, rxData = rx_buff msg,
       txLen = (if tx_buff msg \<noteq> 0 then bytes_number msg else 0),
       rxLen = (if rx_buff msg \<noteq> 0 then bytes_number msg else 0),
       txCnt = 0, rxCnt = 0 \<rparr>"

text \<open>The \<^verbatim>\<open>for\<close> loop, from index \<open>i\<close>. The array \<open>msgs\<close> has \<open>length msgs\<close> elements;
  reading beyond it is undefined.\<close>

function transfer_loop ::
    "platform \<Rightarrow> hal \<Rightarrow> no_os_spi_desc \<Rightarrow> no_os_spi_msg list \<Rightarrow> nat \<Rightarrow> nat \<Rightarrow> world
      \<Rightarrow> (int \<times> world) option" where
  "transfer_loop p h desc msgs len i w =
     (if i < len then
        (if \<not> i < length msgs then None
         else
           (case max_delay_config p h desc (msgs ! i) w of
              None \<Rightarrow> None
            | Some w1 \<Rightarrow>
                (case vendor_call h (MXC_SPI_MasterTransaction (transfer_req desc (msgs ! i))) w1 of
                   (ret, w2) \<Rightarrow>
                     if ret = E_BAD_PARAM p then Some (- EINVAL p, w2)
                     else if ret = E_BAD_STATE p then Some (- EBUSY p, w2)
                     else transfer_loop p h desc msgs len (i + 1)
                            (void_call (no_os_udelay (cs_change_delay (msgs ! i))) w2))))
      else Some (0, w))"
  by pat_completeness auto
termination
  by (relation "measure (\<lambda>(p, h, desc, msgs, len, i, w). len - i)") auto

declare transfer_loop.simps [simp del]

definition max_spi_transfer ::
    "platform \<Rightarrow> hal \<Rightarrow> no_os_spi_desc option \<Rightarrow> no_os_spi_msg list option \<Rightarrow> u32 \<Rightarrow> world
      \<Rightarrow> (int \<times> world) option" where
  "max_spi_transfer p h desc msgs len w =
     (case desc of
        None \<Rightarrow> Some (- EINVAL p, w)
      | Some d \<Rightarrow>
          (case msgs of
             None \<Rightarrow> Some (- EINVAL p, w)
           | Some ms \<Rightarrow>
               (let slave_id = (ucast (chip_select d) :: u32) in
                if \<not> unat (device_id d) < MXC_SPI_INSTANCES p then None
                else if slave_id \<noteq> last_slave_id w (device_id d) then
                  (case max_spi_config p h d w of
                     (ret, w1) \<Rightarrow>
                       if ret \<noteq> 0 then Some (ret, w1)
                       else transfer_loop p h d ms (unat len) 0
                              (w1\<lparr>last_slave_id := (last_slave_id w1)(device_id d := slave_id)\<rparr>))
                else transfer_loop p h d ms (unat len) 0 w)))"

subsection \<open>\<^verbatim>\<open>max_spi_write_and_read\<close>\<close>

definition max_spi_write_and_read ::
    "platform \<Rightarrow> hal \<Rightarrow> no_os_spi_desc option \<Rightarrow> ptr \<Rightarrow> u16 \<Rightarrow> world \<Rightarrow> (int \<times> world) option" where
  "max_spi_write_and_read p h desc data n w =
     (let xfer = \<lparr> tx_buff = data, rx_buff = data, bytes_number = ucast n, cs_change = 1,
                   cs_change_delay = 0, cs_delay_first = 0, cs_delay_last = 0 \<rparr>
      in max_spi_transfer p h desc (Some [xfer]) 1 w)"

subsection \<open>Sequences of calls, and what is counted in a trace\<close>

text \<open>A caller that makes one \<^verbatim>\<open>max_spi_transfer\<close> call after the other, each with its
  descriptor and its array of messages (\<^verbatim>\<open>len\<close> is the length of the array), whatever
  the calls return.\<close>

fun transfer_calls ::
    "platform \<Rightarrow> hal \<Rightarrow> (no_os_spi_desc \<times> no_os_spi_msg list) list \<Rightarrow> world \<Rightarrow> world option" where
  "transfer_calls p h [] w = Some w"
| "transfer_calls p h (c # cs) w =
     (case max_spi_transfer p h (Some (fst c)) (Some (snd c)) (of_nat (length (snd c))) w of
        None \<Rightarrow> None
      | Some r \<Rightarrow> transfer_calls p h cs (snd r))"

text \<open>Every run of \<^verbatim>\<open>_max_spi_config\<close> starts with one call of \<^verbatim>\<open>MXC_SPI_Init\<close>, and
  nothing else calls it during a transfer: the runs of the configuration step are the
  \<^verbatim>\<open>MXC_SPI_Init\<close> entries of the trace.\<close>

fun is_init :: "hw_op \<Rightarrow> bool" where
  "is_init (MXC_SPI_Init _ _ _ _ _ _ _) = True"
| "is_init _ = False"

fun is_transaction :: "hw_op \<Rightarrow> bool" where
  "is_transaction (MXC_SPI_MasterTransaction _) = True"
| "is_transaction _ = False"

fun is_config_op :: "hw_op \<Rightarrow> bool" where
  "is_config_op (MXC_SPI_Init _ _ _ _ _ _ _) = True"
| "is_config_op (MXC_SPI_SetMode _ _) = True"
| "is_config_op (MXC_SPI_SetWidth _ _) = True"
| "is_config_op (MXC_SPI_SetDataSize _ _) = True"
| "is_config_op _ = False"

text \<open>The configuration calls of the vendor library all succeed.\<close>

definition hal_config_ok :: "hal \<Rightarrow> bool" where
  "hal_config_ok h = (\<forall>tr op. is_config_op op \<longrightarrow> call_ret h tr op = 0)"

text \<open>A sequence that alternates between \<open>a\<close> and \<open>b\<close>, starting with \<open>a\<close>.\<close>

fun alternating :: "'a \<Rightarrow> 'a \<Rightarrow> 'a list \<Rightarrow> bool" where
  "alternating a b [] = True"
| "alternating a b (x # xs) = (x = a \<and> alternating b a xs)"

text \<open>The chip-select index of a call, as \<^verbatim>\<open>max_spi_transfer\<close> reads it into
  \<^verbatim>\<open>slave_id\<close>.\<close>

definition call_slave_id :: "no_os_spi_desc \<times> no_os_spi_msg list \<Rightarrow> u32" where
  "call_slave_id c = ucast (chip_select (fst c))"

definition config_count :: "world \<Rightarrow> nat" where
  "config_count w = length (filter is_init (trace w))"

text \<open>The number of places in a sequence of chip-select indices where the index differs
  from the one before it, the first being compared with \<open>prev\<close>.\<close>

fun cs_changes :: "u32 \<Rightarrow> u32 list \<Rightarrow> nat" where
  "cs_changes prev [] = 0"
| "cs_changes prev (x # xs) = (if x \<noteq> prev then 1 else 0) + cs_changes x xs"

text \<open>The clock rates for which the tick period is defined and not zero, so that the delay
  computation divides by no zero.\<close>

definition clock_ok :: "hal \<Rightarrow> u32 \<Rightarrow> bool" where
  "clock_ok h dev =
     (case NO_OS_DIV_ROUND_CLOSEST NANO (MXC_SPI_GetPeripheralClock h dev) of
        None \<Rightarrow> False
      | Some ticks_ns \<Rightarrow> ticks_ns \<noteq> 0)"

text \<open>The delay applier fails for a message: a tick count that it computes, for the first
  or for the last delay, exceeds \<^verbatim>\<open>MAX_DELAY_SCLK\<close>.\<close>

definition delay_out_of_range :: "hal \<Rightarrow> no_os_spi_desc \<Rightarrow> no_os_spi_msg \<Rightarrow> world \<Rightarrow> bool" where
  "delay_out_of_range h desc msg w =
     (let st = states w (extra desc) in
      case NO_OS_DIV_ROUND_CLOSEST NANO (MXC_SPI_GetPeripheralClock h (device_id desc)) of
        None \<Rightarrow> False
      | Some ticks_ns \<Rightarrow>
          (cs_delay_first msg \<noteq> st_cs_delay_first st
            \<and> (case ticks_delay_first ticks_ns msg of
                  None \<Rightarrow> False | Some t \<Rightarrow> MAX_DELAY_SCLK < t))
          \<or> (cs_delay_last msg \<noteq> st_cs_delay_last st
            \<and> (case ticks_delay_last ticks_ns msg of
                  None \<Rightarrow> False | Some t \<Rightarrow> MAX_DELAY_SCLK < t)))"

text \<open>The tick count that rounding to the nearest would give for a delay of \<open>d\<close>
  microseconds and a tick period of \<open>ticks_ns\<close> nanoseconds, on unbounded numbers: the
  reading of the specification that the source is compared with.\<close>

definition spec_ticks_round_nearest :: "nat \<Rightarrow> nat \<Rightarrow> nat" where
  "spec_ticks_round_nearest d ticks_ns = (d * 1000 + ticks_ns div 2) div ticks_ns"

subsection \<open>Concrete runs\<close>

text \<open>A vendor library whose transactions all return \<open>r\<close> and whose other calls succeed, at
  a peripheral clock of \<open>clk\<close> Hz; a world whose \<^verbatim>\<open>sstime\<close> registers hold \<open>reg\<close> and whose
  driver states hold the delays \<open>f\<close> and \<open>l\<close>, with the table \<^verbatim>\<open>last_slave_id\<close> at zero as
  at program start; a descriptor for chip select \<open>cs\<close> of instance 0; a message with the
  delays \<open>f\<close> and \<open>l\<close>.\<close>

definition hal_fixture :: "u32 \<Rightarrow> int \<Rightarrow> hal" where
  "hal_fixture clk r =
     \<lparr> call_ret = (\<lambda>tr op. if is_transaction op then r else 0),
       MXC_SPI_GetPeripheralClock = (\<lambda>dev. clk) \<rparr>"

text \<open>A vendor library whose configuration calls all return \<open>c\<close> and whose other calls
  succeed.\<close>

definition hal_fixture_config :: "u32 \<Rightarrow> int \<Rightarrow> hal" where
  "hal_fixture_config clk c =
     \<lparr> call_ret = (\<lambda>tr op. if is_config_op op then c else 0),
       MXC_SPI_GetPeripheralClock = (\<lambda>dev. clk) \<rparr>"

definition world_fixture :: "u32 \<Rightarrow> u32 \<Rightarrow> u32 \<Rightarrow> world" where
  "world_fixture f l reg =
     \<lparr> sstime = (\<lambda>dev. reg), last_slave_id = (\<lambda>dev. 0),
       states = (\<lambda>a. \<lparr> init_param = \<lparr> numSlaves = 1, polarity = 0, vssel = 0 \<rparr>,
                         st_cs_delay_first = f, st_cs_delay_last = l \<rparr>),
       trace = [] \<rparr>"

definition desc_fixture :: "u8 \<Rightarrow> no_os_spi_desc" where
  "desc_fixture cs =
     \<lparr> device_id = 0, max_speed_hz = 1000000, chip_select = cs, mode = NO_OS_SPI_MODE_0,
       extra = unat cs \<rparr>"

definition msg_fixture :: "u32 \<Rightarrow> u32 \<Rightarrow> no_os_spi_msg" where
  "msg_fixture f l =
     \<lparr> tx_buff = 0x20000000, rx_buff = 0x20000100, bytes_number = 4, cs_change = 1,
       cs_change_delay = 0, cs_delay_first = f, cs_delay_last = l \<rparr>"

text \<open>The two fields of \<^verbatim>\<open>sstime\<close> of instance \<open>dev\<close>, read back.\<close>

definition sstime_pre :: "platform \<Rightarrow> u32 \<Rightarrow> world \<Rightarrow> u32" where
  "sstime_pre p dev w = no_os_field_get (MXC_F_SPI_SSTIME_PRE p) (sstime w dev)"

definition sstime_post :: "platform \<Rightarrow> u32 \<Rightarrow> world \<Rightarrow> u32" where
  "sstime_post p dev w = no_os_field_get (MXC_F_SPI_SSTIME_POST p) (sstime w dev)"

section \<open>Properties\<close>

lemmas run_defs = max_delay_config_def delay_last_part_def delay_error_def void_call_def
  vendor_call_def sstime_write_def ticks_delay_first_def ticks_delay_last_def
  NO_OS_DIV_ROUND_CLOSEST_def NANO_def NS_PER_US_def MAX_DELAY_SCLK_def
  no_os_field_prep_def no_os_field_get_def no_os_find_first_set_bit_def
  sstime_pre_def sstime_post_def
  hal_fixture_def hal_fixture_config_def world_fixture_def desc_fixture_def msg_fixture_def
  max78000_def Let_def

subsection \<open>The delay applier: frame and totality\<close>

lemma delay_error_restores:
  "delay_error dev (sstime w dev) (void_call op (sstime_write dev field t w))
     = w\<lparr>trace := trace w @ [op]\<rparr>"
  "delay_error dev (sstime w dev) (void_call op w) = w\<lparr>trace := trace w @ [op]\<rparr>"
  by (simp_all add: delay_error_def void_call_def sstime_write_def)

lemma sstime_write_states [simp]:
  "states (sstime_write dev field t w) = states w"
  by (simp add: sstime_write_def)

lemma ticks_delay_last_big:
  assumes "ticks_delay_last ticks_ns msg = Some t" "MAX_DELAY_SCLK < t"
  shows "cs_delay_first msg \<noteq> 0 \<and> ticks_ns \<noteq> 0"
  using assms by (auto simp: ticks_delay_last_def MAX_DELAY_SCLK_def split: if_splits)

lemma ticks_delay_first_Some:
  "cs_delay_first msg = 0 \<or> ticks_ns \<noteq> 0 \<Longrightarrow> \<exists>t. ticks_delay_first ticks_ns msg = Some t"
  by (auto simp: ticks_delay_first_def)

lemma ticks_delay_last_Some:
  "cs_delay_first msg = 0 \<or> ticks_ns \<noteq> 0 \<Longrightarrow> \<exists>t. ticks_delay_last ticks_ns msg = Some t"
  by (auto simp: ticks_delay_last_def)

lemma delay_last_part_Some:
  assumes "cs_delay_first msg = 0 \<or> ticks_ns \<noteq> 0"
  shows "\<exists>w1. delay_last_part p desc msg c ticks_ns w = Some w1"
  using ticks_delay_last_Some [OF assms]
  by (auto simp: delay_last_part_def Let_def)

lemma max_delay_config_total:
  assumes "unat (device_id desc) < MXC_SPI_INSTANCES p" "clock_ok h (device_id desc)"
  shows "\<exists>w1. max_delay_config p h desc msg w = Some w1"
proof -
  from assms(2) obtain ticks_ns where
    t: "NO_OS_DIV_ROUND_CLOSEST NANO (MXC_SPI_GetPeripheralClock h (device_id desc)) = Some ticks_ns"
    and nz: "ticks_ns \<noteq> 0"
    by (auto simp: clock_ok_def split: option.splits)
  from nz obtain t1 where t1: "ticks_delay_first ticks_ns msg = Some t1"
    using ticks_delay_first_Some by blast
  show ?thesis
    using assms(1) t t1 nz delay_last_part_Some [of msg ticks_ns p desc]
    by (auto simp: max_delay_config_def Let_def)
qed

lemma delay_last_part_frame:
  assumes "delay_last_part p desc msg c ticks_ns w = Some w1"
  shows "last_slave_id w1 = last_slave_id w
    \<and> (trace w1 = trace w \<or> trace w1 = trace w @ [pr_warning ''cs_delay_last value is too high\<newline>''])"
  using assms
  by (auto simp: delay_last_part_def Let_def delay_error_def void_call_def sstime_write_def
      split: if_splits option.splits)

lemma max_delay_config_frame:
  assumes "max_delay_config p h desc msg w = Some w1"
  shows "last_slave_id w1 = last_slave_id w
    \<and> (trace w1 = trace w
       \<or> trace w1 = trace w @ [pr_warning ''cs_delay_first value is too high\<newline>'']
       \<or> trace w1 = trace w @ [pr_warning ''cs_delay_last value is too high\<newline>''])"
  using assms
  by (auto simp: max_delay_config_def Let_def delay_error_def void_call_def sstime_write_def
      split: if_splits option.splits dest!: delay_last_part_frame)

lemma max_delay_config_trace:
  assumes "max_delay_config p h desc msg w = Some w1"
  shows "last_slave_id w1 = last_slave_id w
    \<and> (\<exists>ext. trace w1 = trace w @ ext \<and> filter is_init ext = []
          \<and> filter is_transaction ext = [])"
  using max_delay_config_frame [OF assms] by auto

lemma delay_last_part_out_of_range:
  assumes "cs_delay_last msg \<noteq> st_cs_delay_last (states w (extra desc))"
    and "ticks_delay_last ticks_ns msg = Some t" and "MAX_DELAY_SCLK < t"
  shows "delay_last_part p desc msg c ticks_ns w
    = Some (delay_error (device_id desc) c
        (void_call (pr_warning ''cs_delay_last value is too high\<newline>'') w))"
  using assms by (simp add: delay_last_part_def Let_def)

lemma max_delay_config_out_of_range:
  assumes dev: "unat (device_id desc) < MXC_SPI_INSTANCES p"
    and oor: "delay_out_of_range h desc msg w"
  shows "\<exists>s. max_delay_config p h desc msg w = Some (w\<lparr>trace := trace w @ [pr_warning s]\<rparr>)"
proof -
  let ?st = "states w (extra desc)"
  from oor obtain ticks_ns where
    t: "NO_OS_DIV_ROUND_CLOSEST NANO (MXC_SPI_GetPeripheralClock h (device_id desc)) = Some ticks_ns"
    and d: "(cs_delay_first msg \<noteq> st_cs_delay_first ?st
        \<and> (\<exists>t. ticks_delay_first ticks_ns msg = Some t \<and> MAX_DELAY_SCLK < t))
      \<or> (cs_delay_last msg \<noteq> st_cs_delay_last ?st
        \<and> (\<exists>t. ticks_delay_last ticks_ns msg = Some t \<and> MAX_DELAY_SCLK < t))"
    by (auto simp: delay_out_of_range_def Let_def split: option.splits)
  from d show ?thesis
  proof
    assume "cs_delay_first msg \<noteq> st_cs_delay_first ?st
        \<and> (\<exists>t. ticks_delay_first ticks_ns msg = Some t \<and> MAX_DELAY_SCLK < t)"
    then show ?thesis
      using dev t by (auto simp: max_delay_config_def Let_def delay_error_restores)
  next
    assume a: "cs_delay_last msg \<noteq> st_cs_delay_last ?st
        \<and> (\<exists>t. ticks_delay_last ticks_ns msg = Some t \<and> MAX_DELAY_SCLK < t)"
    then obtain tl where tl: "ticks_delay_last ticks_ns msg = Some tl" "MAX_DELAY_SCLK < tl"
      by blast
    from a have ne: "cs_delay_last msg \<noteq> st_cs_delay_last ?st"
      by simp
    from tl have "ticks_ns \<noteq> 0"
      using ticks_delay_last_big by blast
    then obtain tf where tf: "ticks_delay_first ticks_ns msg = Some tf"
      using ticks_delay_first_Some by blast
    have last: "delay_last_part p desc msg c ticks_ns w'
        = Some (delay_error (device_id desc) c
            (void_call (pr_warning ''cs_delay_last value is too high\<newline>'') w'))"
      if "states w' = states w" for w' c
      using delay_last_part_out_of_range [of msg w' desc ticks_ns tl] ne tl that by simp
    show ?thesis
      using dev t tf ne
      by (auto simp: max_delay_config_def Let_def delay_error_restores last)
  qed
qed

subsection \<open>The loop: one step, frame and totality\<close>

lemma transfer_loop_step:
  assumes "i < len" "i < length msgs" "max_delay_config p h desc (msgs ! i) w = Some w1"
  shows "transfer_loop p h desc msgs len i w =
    (let op = MXC_SPI_MasterTransaction (transfer_req desc (msgs ! i));
         ret = call_ret h (trace w1) op;
         w2 = w1\<lparr>trace := trace w1 @ [op]\<rparr>
     in if ret = E_BAD_PARAM p then Some (- EINVAL p, w2)
        else if ret = E_BAD_STATE p then Some (- EBUSY p, w2)
        else transfer_loop p h desc msgs len (i + 1)
               (void_call (no_os_udelay (cs_change_delay (msgs ! i))) w2))"
  using assms
  by (simp add: transfer_loop.simps [of p h desc msgs len i w] vendor_call_def Let_def)

lemma transfer_loop_done:
  "\<not> i < len \<Longrightarrow> transfer_loop p h desc msgs len i w = Some (0, w)"
  by (simp add: transfer_loop.simps)

lemma transfer_loop_Some_D:
  assumes "transfer_loop p h desc msgs len i w = Some r" "i < len"
  shows "i < length msgs \<and> (\<exists>w1. max_delay_config p h desc (msgs ! i) w = Some w1)"
  using assms
  by (auto simp: transfer_loop.simps [of p h desc msgs len i w] split: if_splits option.splits)

lemma transfer_loop_frame:
  "transfer_loop p h desc msgs len i w = Some (r, wz) \<Longrightarrow>
     last_slave_id wz = last_slave_id w
     \<and> (\<exists>ext. trace wz = trace w @ ext \<and> filter is_init ext = [])"
proof (induction "len - i" arbitrary: i w)
  case 0
  then show ?case
    by (simp add: transfer_loop_done)
next
  case (Suc n)
  then have lt: "i < len"
    by simp
  from transfer_loop_Some_D [OF Suc.prems lt] obtain w1 where
    il: "i < length msgs" and w1: "max_delay_config p h desc (msgs ! i) w = Some w1"
    by blast
  let ?op = "MXC_SPI_MasterTransaction (transfer_req desc (msgs ! i))"
  let ?w2 = "w1\<lparr>trace := trace w1 @ [?op]\<rparr>"
  let ?w3 = "void_call (no_os_udelay (cs_change_delay (msgs ! i))) ?w2"
  from max_delay_config_trace [OF w1] obtain e1 where
    d: "last_slave_id w1 = last_slave_id w" "trace w1 = trace w @ e1" "filter is_init e1 = []"
    by blast
  note step = transfer_loop_step [OF lt il w1]
  show ?case
  proof (cases "call_ret h (trace w1) ?op = E_BAD_PARAM p
      \<or> call_ret h (trace w1) ?op = E_BAD_STATE p")
    case True
    with step Suc.prems have "wz = ?w2"
      by (auto simp: Let_def split: if_splits)
    with d show ?thesis
      by simp
  next
    case False
    with step Suc.prems have rec: "transfer_loop p h desc msgs len (i + 1) ?w3 = Some (r, wz)"
      by (simp add: Let_def)
    from Suc.hyps(2) have "n = len - (i + 1)"
      by simp
    from Suc.hyps(1) [OF this rec] obtain e3 where
      "last_slave_id wz = last_slave_id ?w3" "trace wz = trace ?w3 @ e3" "filter is_init e3 = []"
      by blast
    with d show ?thesis
      by (simp add: void_call_def)
  qed
qed

lemma transfer_loop_total:
  assumes "unat (device_id desc) < MXC_SPI_INSTANCES p" "clock_ok h (device_id desc)"
    and "len \<le> length msgs"
  shows "\<exists>r wz. transfer_loop p h desc msgs len i w = Some (r, wz)"
proof (induction "len - i" arbitrary: i w)
  case 0
  then show ?case
    by (simp add: transfer_loop_done)
next
  case (Suc n)
  then have lt: "i < len"
    by simp
  with assms(3) have il: "i < length msgs"
    by simp
  from max_delay_config_total [OF assms(1,2)] obtain w1 where
    w1: "max_delay_config p h desc (msgs ! i) w = Some w1"
    by blast
  from Suc.hyps(2) have n: "n = len - (i + 1)"
    by simp
  show ?case
    using transfer_loop_step [OF lt il w1] Suc.hyps(1) [OF n]
    by (simp add: Let_def)
qed

text \<open>What a finished loop has done: either every remaining message has had its
  transaction and the result is 0, or the last operation is a transaction whose result was
  \<^verbatim>\<open>E_BAD_PARAM\<close> or \<^verbatim>\<open>E_BAD_STATE\<close>, mapped to \<^verbatim>\<open>-EINVAL\<close> or \<^verbatim>\<open>-EBUSY\<close>.\<close>

lemma transfer_loop_result:
  "transfer_loop p h desc msgs len i w = Some (r, wz) \<Longrightarrow>
     (r = 0 \<and> length (filter is_transaction (trace wz))
          = length (filter is_transaction (trace w)) + (len - i))
     \<or> (\<exists>tr req. trace wz = tr @ [MXC_SPI_MasterTransaction req]
          \<and> ((call_ret h tr (MXC_SPI_MasterTransaction req) = E_BAD_PARAM p \<and> r = - EINVAL p)
             \<or> (call_ret h tr (MXC_SPI_MasterTransaction req) = E_BAD_STATE p \<and> r = - EBUSY p)))"
proof (induction "len - i" arbitrary: i w)
  case 0
  then show ?case
    by (simp add: transfer_loop_done)
next
  case (Suc n)
  then have lt: "i < len"
    by simp
  from transfer_loop_Some_D [OF Suc.prems lt] obtain w1 where
    il: "i < length msgs" and w1: "max_delay_config p h desc (msgs ! i) w = Some w1"
    by blast
  let ?op = "MXC_SPI_MasterTransaction (transfer_req desc (msgs ! i))"
  let ?w2 = "w1\<lparr>trace := trace w1 @ [?op]\<rparr>"
  let ?w3 = "void_call (no_os_udelay (cs_change_delay (msgs ! i))) ?w2"
  from max_delay_config_trace [OF w1] obtain e1 where
    d: "trace w1 = trace w @ e1" "filter is_transaction e1 = []"
    by blast
  note step = transfer_loop_step [OF lt il w1]
  show ?case
  proof (cases "call_ret h (trace w1) ?op = E_BAD_PARAM p
      \<or> call_ret h (trace w1) ?op = E_BAD_STATE p")
    case True
    with step Suc.prems have "wz = ?w2
        \<and> ((call_ret h (trace w1) ?op = E_BAD_PARAM p \<and> r = - EINVAL p)
           \<or> (call_ret h (trace w1) ?op = E_BAD_STATE p \<and> r = - EBUSY p))"
      by (auto simp: Let_def split: if_splits)
    then show ?thesis
      by auto
  next
    case False
    with step Suc.prems have rec: "transfer_loop p h desc msgs len (i + 1) ?w3 = Some (r, wz)"
      by (simp add: Let_def)
    from Suc.hyps(2) have n: "n = len - (i + 1)"
      by simp
    have "length (filter is_transaction (trace ?w3))
        = length (filter is_transaction (trace w)) + 1"
      using d by (simp add: void_call_def)
    moreover from lt have "len - i = Suc (len - (i + 1))"
      by simp
    ultimately show ?thesis
      using Suc.hyps(1) [OF n rec] by auto
  qed
qed

subsection \<open>The first tick computation at clock rates of 1 MHz and more\<close>

text \<open>The first tick computation at tick periods of at most 1000 ns (clock rates of 1 MHz
  and more), for delays whose product with 1000 does not wrap around: the count is
  monotonic in the delay, and at every clock rate the delay 0 gives 1.\<close>

lemma ticks_delay_first_zero:
  "cs_delay_first msg = 0 \<Longrightarrow> ticks_delay_first ticks_ns msg = Some 1"
  by (simp add: ticks_delay_first_def)

lemma ticks_delay_first_mono:
  assumes nz: "ticks_ns \<noteq> 0" and fast: "unat ticks_ns \<le> 1000"
    and le: "cs_delay_first m \<le> cs_delay_first m'"
    and nowrap: "unat (cs_delay_first m') * 1000 < 2 ^ 32"
  shows "\<exists>t t'. ticks_delay_first ticks_ns m = Some t
    \<and> ticks_delay_first ticks_ns m' = Some t' \<and> t \<le> t'"
proof -
  let ?d = "cs_delay_first m" and ?d' = "cs_delay_first m'"
  from le have ule: "unat ?d \<le> unat ?d'"
    by (simp add: word_le_nat_alt)
  with nowrap have nowrap0: "unat ?d * 1000 < 2 ^ 32"
    by simp
  have q: "unat (x * NS_PER_US div ticks_ns) = unat x * 1000 div unat ticks_ns"
    if "unat x * 1000 < 2 ^ 32" for x :: u32
    using that by (simp add: unat_div NS_PER_US_def unat_word_ariths)
  from nz have pos: "0 < unat ticks_ns"
    by (simp add: unat_gt_0)
  show ?thesis
  proof (cases "?d' = 0")
    case True
    with le have "?d = 0"
      by simp
    with True show ?thesis
      by (simp add: ticks_delay_first_def)
  next
    case d': False
    then have "1 \<le> unat ?d'"
      by (simp add: unat_gt_0 Suc_le_eq)
    then have "unat ticks_ns \<le> unat ?d' * 1000"
      using fast by simp
    then have "1 \<le> unat ?d' * 1000 div unat ticks_ns"
      using pos by (simp add: Suc_le_eq div_greater_zero_iff)
    then have one: "1 \<le> ?d' * NS_PER_US div ticks_ns"
      using q [OF nowrap] by (simp add: word_le_nat_alt)
    show ?thesis
    proof (cases "?d = 0")
      case True
      with d' nz one show ?thesis
        by (simp add: ticks_delay_first_def)
    next
      case False
      have "unat ?d * 1000 div unat ticks_ns \<le> unat ?d' * 1000 div unat ticks_ns"
        using ule by (simp add: div_le_mono)
      then have "?d * NS_PER_US div ticks_ns \<le> ?d' * NS_PER_US div ticks_ns"
        using q [OF nowrap] q [OF nowrap0] by (simp add: word_le_nat_alt)
      with False d' nz show ?thesis
        by (simp add: ticks_delay_first_def)
    qed
  qed
qed

subsection \<open>The tick computations\<close>

text \<open>
  C1. In the delay applier, for a message whose last chip-select delay differs from the
  cached one, whether the minimum tick count 1 is substituted should depend on the
  message's own last delay being zero, and not on its first delay.

  The source tests \<^verbatim>\<open>msg->cs_delay_first\<close> in both places. At a peripheral clock of 50 MHz
  (a tick of 20 ns), with the cached delays at zero: a message with first delay 0 and last
  delay 2 us gets 1 tick in the POST field, while the same last delay with first delay 5 us
  gets the 100 ticks that 2 us are.
\<close>

theorem C1_last_zero_check_tests_first_delay:
  "map_option (sstime_post max78000 0)
     (max_delay_config max78000 (hal_fixture 50000000 0) (desc_fixture 0) (msg_fixture 0 2)
        (world_fixture 0 0 0)) = Some 1
   \<and> map_option (sstime_post max78000 0)
     (max_delay_config max78000 (hal_fixture 50000000 0) (desc_fixture 0) (msg_fixture 5 2)
        (world_fixture 0 0 0)) = Some 100"
  by (simp add: run_defs)

text \<open>
  C4. For every first or last chip-select delay that the delay applier accepts, the tick
  value written into the PRE or POST field of \<^verbatim>\<open>sstime\<close> should be at least 1: the raw
  value 0, which stands for 256 ticks, should never be written.

  The source writes 0 in two ways. At 50 MHz, with the delays 5 us and 3 us cached and in
  the register (\<open>0x96FA\<close>), a message with first delay 5 us and last delay 0 gets 0 in the
  POST field, without a warning: the zero test of the last delay reads the first delay. At
  390625 Hz (a tick of 2560 ns), a message with first delay 1 us gets 0 in the PRE field:
  the quotient 1000 / 2560 is truncated to 0.
\<close>

theorem C4_zero_ticks_written:
  "map_option (\<lambda>w. (sstime_post max78000 0 w, trace w))
     (max_delay_config max78000 (hal_fixture 50000000 0) (desc_fixture 0) (msg_fixture 5 0)
        (world_fixture 5 3 0x96FA)) = Some (0, [])
   \<and> map_option (\<lambda>w. (sstime_pre max78000 0 w, trace w))
     (max_delay_config max78000 (hal_fixture 390625 0) (desc_fixture 0) (msg_fixture 1 0)
        (world_fixture 0 0 0x0101)) = Some (0, [])"
  by (simp add: run_defs)

text \<open>
  C6. At a fixed peripheral clock rate the tick count of the first delay should be
  monotonic, non-decreasing, in the requested delay, and the delay 0 should give the
  minimum tick count 1.

  The delay 0 gives 1 tick at every clock rate (\<open>ticks_delay_first_zero\<close>), but at
  390625 Hz, where a tick is 2560 ns, the delay 1 us gives 0 ticks, less than the delay 0
  does. For tick periods of at most 1000 ns the count is monotonic
  (\<open>ticks_delay_first_mono\<close>).
\<close>

theorem C6_not_monotonic_at_slow_clock:
  "NO_OS_DIV_ROUND_CLOSEST NANO 390625 = Some 2560
   \<and> ticks_delay_first 2560 (msg_fixture 0 0) = Some 1
   \<and> ticks_delay_first 2560 (msg_fixture 1 0) = Some 0"
  by (simp add: run_defs)

text \<open>
  C10. The product of the requested delay in microseconds and \<^verbatim>\<open>NS_PER_US\<close> is a
  \<^verbatim>\<open>uint32_t\<close> product, taken modulo \<open>2 ^ 32\<close>: there is a delay above 4294967 us whose
  product wraps around, whose tick count is in range, and which is written to the register
  and cached instead of being rejected. At 50 MHz the delay 4294968 us becomes
  \<open>704 div 20 = 35\<close> ticks, with no warning.
\<close>

theorem C10_product_wraps_and_is_accepted:
  "\<exists>d :: u32. 4294967 < unat d
     \<and> 2 ^ 32 \<le> unat d * 1000
     \<and> unat (d * NS_PER_US) = unat d * 1000 - 2 ^ 32
     \<and> ticks_delay_first 20 (msg_fixture d 0) = Some 35
     \<and> map_option (\<lambda>w. (sstime_pre max78000 0 w, st_cs_delay_first (states w 0), trace w))
          (max_delay_config max78000 (hal_fixture 50000000 0) (desc_fixture 0) (msg_fixture d 0)
             (world_fixture 0 0 0x0101)) = Some (35, d, [])"
  by (rule exI [of _ 4294968]) (simp add: run_defs)

subsection \<open>A delay out of range\<close>

text \<open>
  C5. Whenever the delay applier fails because a tick count computed for the first or for
  the last delay exceeds the maximum of 255, the \<^verbatim>\<open>sstime\<close> register has on return the
  value it had on entry, the cached delays are unchanged (only the warning is logged), and
  the transfer goes on with the hardware transaction of the message: what the loop
  returns is decided by the result of that transaction alone.
\<close>

theorem C5_out_of_range_restores_and_transfer_continues:
  assumes "unat (device_id desc) < MXC_SPI_INSTANCES p"
    and "delay_out_of_range h desc msg w"
  shows "\<exists>s w1. max_delay_config p h desc msg w = Some w1
    \<and> sstime w1 = sstime w \<and> states w1 = states w \<and> trace w1 = trace w @ [pr_warning s]
    \<and> (\<forall>msgs len i. i < len \<and> i < length msgs \<and> msgs ! i = msg \<longrightarrow>
          transfer_loop p h desc msgs len i w =
            (let op = MXC_SPI_MasterTransaction (transfer_req desc msg);
                 ret = call_ret h (trace w1) op;
                 w2 = w1\<lparr>trace := trace w1 @ [op]\<rparr>
             in if ret = E_BAD_PARAM p then Some (- EINVAL p, w2)
                else if ret = E_BAD_STATE p then Some (- EBUSY p, w2)
                else transfer_loop p h desc msgs len (i + 1)
                       (void_call (no_os_udelay (cs_change_delay msg)) w2)))"
proof -
  from max_delay_config_out_of_range [OF assms] obtain s where
    s: "max_delay_config p h desc msg w = Some (w\<lparr>trace := trace w @ [pr_warning s]\<rparr>)"
    by blast
  let ?w1 = "w\<lparr>trace := trace w @ [pr_warning s]\<rparr>"
  have "transfer_loop p h desc msgs len i w =
            (let op = MXC_SPI_MasterTransaction (transfer_req desc msg);
                 ret = call_ret h (trace ?w1) op;
                 w2 = ?w1\<lparr>trace := trace ?w1 @ [op]\<rparr>
             in if ret = E_BAD_PARAM p then Some (- EINVAL p, w2)
                else if ret = E_BAD_STATE p then Some (- EBUSY p, w2)
                else transfer_loop p h desc msgs len (i + 1)
                       (void_call (no_os_udelay (cs_change_delay msg)) w2))"
    if "i < len" "i < length msgs" "msgs ! i = msg" for msgs len i
    using transfer_loop_step [of i len msgs p h desc w ?w1] that s by (simp add: Let_def)
  with s show ?thesis
    by (intro exI [of _ s] exI [of _ ?w1]) simp
qed

theorem C5_witness:
  "unat (device_id (desc_fixture 0)) < MXC_SPI_INSTANCES max78000
   \<and> delay_out_of_range (hal_fixture 50000000 0) (desc_fixture 0) (msg_fixture 6 0)
       (world_fixture 0 0 0x0101)
   \<and> map_option (\<lambda>w. (sstime w 0, st_cs_delay_first (states w 0), trace w))
       (max_delay_config max78000 (hal_fixture 50000000 0) (desc_fixture 0) (msg_fixture 6 0)
          (world_fixture 0 0 0x0101))
     = Some (0x0101, 0, [pr_warning ''cs_delay_first value is too high\<newline>''])
   \<and> delay_out_of_range (hal_fixture 50000000 0) (desc_fixture 0) (msg_fixture 1 6)
       (world_fixture 0 0 0x0101)
   \<and> map_option
       (\<lambda>w. (sstime w 0, st_cs_delay_first (states w 0), st_cs_delay_last (states w 0), trace w))
       (max_delay_config max78000 (hal_fixture 50000000 0) (desc_fixture 0) (msg_fixture 1 6)
          (world_fixture 0 0 0x0101))
     = Some (0x0101, 0, 0, [pr_warning ''cs_delay_last value is too high\<newline>''])
   \<and> map_option (\<lambda>r. (fst r, trace (snd r)))
       (max_spi_transfer max78000 (hal_fixture 50000000 0) (Some (desc_fixture 0))
          (Some [msg_fixture 6 0]) 1 (world_fixture 0 0 0x0101))
     = Some (0, [pr_warning ''cs_delay_first value is too high\<newline>'',
          MXC_SPI_MasterTransaction (transfer_req (desc_fixture 0) (msg_fixture 6 0)),
          no_os_udelay 0])"
  using
    C5_out_of_range_restores_and_transfer_continues [of "desc_fixture 0" max78000
      "hal_fixture 50000000 0" "msg_fixture 6 0" "world_fixture 0 0 0x0101"]
    C5_out_of_range_restores_and_transfer_continues [of "desc_fixture 0" max78000
      "hal_fixture 50000000 0" "msg_fixture 1 6" "world_fixture 0 0 0x0101"]
  by (simp add: run_defs delay_out_of_range_def max_spi_transfer_def transfer_loop.simps)

subsection \<open>The result of a hardware transaction\<close>

text \<open>What a call returns when no transaction gives \<^verbatim>\<open>E_BAD_PARAM\<close> or \<^verbatim>\<open>E_BAD_STATE\<close>,
  whatever else the transactions give: 0, after one transaction for each of the \<^verbatim>\<open>len\<close>
  messages. (The table entry is taken to hold the chip-select index already, so that the
  configuration step, which has its own errors, does not run.)\<close>

lemma max_spi_transfer_other_results:
  assumes other: "\<forall>tr op. call_ret h tr op \<noteq> E_BAD_PARAM p \<and> call_ret h tr op \<noteq> E_BAD_STATE p"
    and same: "ucast (chip_select d) = last_slave_id w (device_id d)"
    and ret: "max_spi_transfer p h (Some d) (Some ms) len w = Some (r, wz)"
  shows "r = 0 \<and> length (filter is_transaction (trace wz))
      = length (filter is_transaction (trace w)) + unat len"
proof -
  from ret same have "transfer_loop p h d ms (unat len) 0 w = Some (r, wz)"
    by (simp add: max_spi_transfer_def Let_def split: if_splits)
  from transfer_loop_result [OF this] other show ?thesis
    by auto
qed

text \<open>
  C2. During \<^verbatim>\<open>max_spi_transfer\<close> a transaction result of \<^verbatim>\<open>E_BAD_PARAM\<close> should become
  \<^verbatim>\<open>-EINVAL\<close>, a result of \<^verbatim>\<open>E_BAD_STATE\<close> should become \<^verbatim>\<open>-EBUSY\<close>, and every other
  non-zero result should abort the remaining messages and be returned as a failure.

  The source compares the result with the two codes only. In a call with two messages, on
  chip select 0 of instance 0: when the transactions return \<^verbatim>\<open>E_BAD_PARAM\<close> (\<open>-3\<close>) the call
  returns \<open>-22\<close> after the first transaction, and when they return \<^verbatim>\<open>E_BAD_STATE\<close> (\<open>-7\<close>)
  it returns \<open>-16\<close> after the first transaction; but when they return the non-zero code
  \<open>-9\<close> the call makes both transactions, with the delay after each, and returns 0.
\<close>

theorem C2_other_nonzero_result_returns_success:
  "map_option (\<lambda>r. (fst r, trace (snd r)))
     (max_spi_transfer max78000 (hal_fixture 50000000 (- 3)) (Some (desc_fixture 0))
        (Some [msg_fixture 0 0, msg_fixture 0 0]) 2 (world_fixture 0 0 0x0101))
   = Some (- 22, [MXC_SPI_MasterTransaction (transfer_req (desc_fixture 0) (msg_fixture 0 0))])
   \<and> map_option (\<lambda>r. (fst r, trace (snd r)))
     (max_spi_transfer max78000 (hal_fixture 50000000 (- 7)) (Some (desc_fixture 0))
        (Some [msg_fixture 0 0, msg_fixture 0 0]) 2 (world_fixture 0 0 0x0101))
   = Some (- 16, [MXC_SPI_MasterTransaction (transfer_req (desc_fixture 0) (msg_fixture 0 0))])
   \<and> map_option (\<lambda>r. (fst r, trace (snd r)))
     (max_spi_transfer max78000 (hal_fixture 50000000 (- 9)) (Some (desc_fixture 0))
        (Some [msg_fixture 0 0, msg_fixture 0 0]) 2 (world_fixture 0 0 0x0101))
   = Some (0, [MXC_SPI_MasterTransaction (transfer_req (desc_fixture 0) (msg_fixture 0 0)),
        no_os_udelay 0,
        MXC_SPI_MasterTransaction (transfer_req (desc_fixture 0) (msg_fixture 0 0)),
        no_os_udelay 0])"
  by (simp add: run_defs max_spi_transfer_def transfer_loop.simps)

subsection \<open>Truncation and rounding\<close>

lemma unat_times_NS_PER_US:
  "unat (d * NS_PER_US) = unat d * 1000 mod 2 ^ 32" for d :: u32
  by (simp add: NS_PER_US_def unat_word_ariths)

lemma unat_tick_period:
  assumes "NO_OS_DIV_ROUND_CLOSEST NANO clk = Some ticks_ns"
  shows "unat ticks_ns = (1000000000 + unat clk div 2) div unat clk"
proof -
  from assms have nz: "clk \<noteq> 0" and t: "ticks_ns = (NANO + clk div 2) div clk"
    by (auto simp: NO_OS_DIV_ROUND_CLOSEST_def split: if_splits)
  have "unat clk < 2 ^ 32"
    using unsigned_less [of clk] by simp
  then have "1000000000 + unat clk div 2 < 2 ^ 32"
    by simp
  then have "unat (NANO + clk div 2) = 1000000000 + unat clk div 2"
    by (simp add: NANO_def unat_word_ariths unat_div)
  with t show ?thesis
    by (simp add: unat_div)
qed

text \<open>The rounded quotient of the specification is within half a tick period of the exact
  one.\<close>

lemma spec_ticks_round_nearest_bounds:
  assumes "0 < ticks_ns"
  shows "spec_ticks_round_nearest d ticks_ns * ticks_ns \<le> d * 1000 + ticks_ns div 2
    \<and> d * 1000 + ticks_ns div 2 < spec_ticks_round_nearest d ticks_ns * ticks_ns + ticks_ns"
  using assms dividend_less_div_times [of ticks_ns "d * 1000 + ticks_ns div 2"]
  by (simp add: spec_ticks_round_nearest_def add.commute)

text \<open>What the source computes where it divides: the truncated quotient of the 32-bit
  product by the tick period, which alone is rounded to the nearest.\<close>

lemma ticks_delay_truncated:
  assumes "NO_OS_DIV_ROUND_CLOSEST NANO clk = Some ticks_ns" and "ticks_ns \<noteq> 0"
    and "cs_delay_first msg \<noteq> 0"
  shows "unat ticks_ns = (1000000000 + unat clk div 2) div unat clk
    \<and> (\<exists>t. ticks_delay_first ticks_ns msg = Some t
          \<and> unat t = (unat (cs_delay_first msg) * 1000 mod 2 ^ 32) div unat ticks_ns)
    \<and> (\<exists>t. ticks_delay_last ticks_ns msg = Some t
          \<and> unat t = (unat (cs_delay_last msg) * 1000 mod 2 ^ 32) div unat ticks_ns)"
  using assms unat_tick_period [OF assms(1)]
  by (simp add: ticks_delay_first_def ticks_delay_last_def unat_div unat_times_NS_PER_US)

text \<open>
  C3. For a message whose first (or last) chip-select delay \<open>d\<close> is not zero and differs
  from the cached one, the delay applier should compute the tick count as \<open>d\<close> times 1000
  divided by the tick period, rounded to the nearest integer, and not truncated.

  The source rounds the tick period only (line 90) and divides by it with the truncating
  \<^verbatim>\<open>/\<close> (lines 100 and 118). At 31.25 MHz the tick period is 32 ns exactly; with the delays
  0 cached, a message with first and last delay 3 us gets \<open>3000 div 32 = 93\<close> ticks in the
  PRE and in the POST field, and 3 us is cached for both, where 3000 / 32 = 93.75 rounds to
  94. At 30 MHz (a period of 33 ns) a first delay of 2 us gets \<open>2000 div 33 = 60\<close> ticks
  in the PRE field, where the nearest integer to 2000 / 33 is 61.
\<close>

theorem C3_quotient_truncated_not_nearest:
  "NO_OS_DIV_ROUND_CLOSEST NANO 31250000 = Some 32
   \<and> map_option
        (\<lambda>w. (sstime_pre max78000 0 w, sstime_post max78000 0 w,
              st_cs_delay_first (states w 0), st_cs_delay_last (states w 0), trace w))
        (max_delay_config max78000 (hal_fixture 31250000 0) (desc_fixture 0) (msg_fixture 3 3)
           (world_fixture 0 0 0x0101)) = Some (93, 93, 3, 3, [])
   \<and> spec_ticks_round_nearest 3 32 = 94
   \<and> NO_OS_DIV_ROUND_CLOSEST NANO 30000000 = Some 33
   \<and> map_option (\<lambda>w. (sstime_pre max78000 0 w, st_cs_delay_first (states w 0), trace w))
        (max_delay_config max78000 (hal_fixture 30000000 0) (desc_fixture 0) (msg_fixture 2 0)
           (world_fixture 0 0 0x0101)) = Some (60, 2, [])
   \<and> spec_ticks_round_nearest 2 33 = 61"
  by (simp add: run_defs spec_ticks_round_nearest_def)

subsection \<open>The wrapper\<close>

text \<open>
  C9. For every descriptor, buffer and byte count \<open>n\<close>, \<^verbatim>\<open>max_spi_write_and_read\<close> is
  \<^verbatim>\<open>max_spi_transfer\<close> with one message whose transmit and receive buffers are both the
  given buffer, whose byte count is \<open>n\<close> and whose chip-select-deassert flag is set (the
  other fields zero, as the initialiser of the source leaves them): the same result and the
  same world, hence the same sequence of hardware operations.
\<close>

theorem C9_write_and_read_is_one_message_transfer:
  assumes "tx_buff m = data" and "rx_buff m = data" and "bytes_number m = ucast n"
    and "cs_change m = 1"
    and "cs_change_delay m = 0" and "cs_delay_first m = 0" and "cs_delay_last m = 0"
  shows "max_spi_write_and_read p h desc data n w = max_spi_transfer p h desc (Some [m]) 1 w"
proof -
  have "m = \<lparr> tx_buff = data, rx_buff = data, bytes_number = ucast n, cs_change = 1,
              cs_change_delay = 0, cs_delay_first = 0, cs_delay_last = 0 \<rparr>"
    using assms by (cases m) simp
  then show ?thesis
    by (simp add: max_spi_write_and_read_def)
qed

theorem C9_witness:
  "map_option (\<lambda>r. (fst r, trace (snd r)))
     (max_spi_write_and_read max78000 (hal_fixture 50000000 0) (Some (desc_fixture 0))
        0x20000000 4 (world_fixture 0 0 0x0101))
   = Some (0, [MXC_SPI_MasterTransaction
        \<lparr> spi = 0, ssIdx = 0, ssDeassert = 1, txData = 0x20000000, rxData = 0x20000000,
          txLen = 4, rxLen = 4, txCnt = 0, rxCnt = 0 \<rparr>, no_os_udelay 0])
   \<and> max_spi_write_and_read max78000 (hal_fixture 50000000 0) (Some (desc_fixture 0))
        0x20000000 4 (world_fixture 0 0 0x0101)
     = max_spi_transfer max78000 (hal_fixture 50000000 0) (Some (desc_fixture 0))
        (Some [\<lparr> tx_buff = 0x20000000, rx_buff = 0x20000000, bytes_number = 4, cs_change = 1,
                 cs_change_delay = 0, cs_delay_first = 0, cs_delay_last = 0 \<rparr>]) 1
        (world_fixture 0 0 0x0101)"
  using C9_write_and_read_is_one_message_transfer [of
      "\<lparr> tx_buff = 0x20000000, rx_buff = 0x20000000, bytes_number = 4, cs_change = 1,
         cs_change_delay = 0, cs_delay_first = 0, cs_delay_last = 0 \<rparr>"
      "0x20000000" 4 max78000 "hal_fixture 50000000 0" "Some (desc_fixture 0)"
      "world_fixture 0 0 0x0101"]
  by (simp add: run_defs max_spi_write_and_read_def max_spi_transfer_def transfer_loop.simps
      transfer_req_def)

subsection \<open>The configuration step\<close>

lemma max_spi_config_ext:
  fixes p h d w
  defines "ext \<equiv> drop (length (trace w)) (trace (snd (max_spi_config p h d w)))"
  shows "snd (max_spi_config p h d w) = w\<lparr>trace := trace w @ ext\<rparr>
     \<and> ext \<noteq> [] \<and> is_init (hd ext) \<and> filter is_init (tl ext) = []
     \<and> filter is_transaction ext = []"
  unfolding ext_def
  by (simp add: max_spi_config_def vendor_call_def err_init_def void_call_def Let_def
      split: option.splits)

lemma max_spi_config_frame:
  "\<exists>op ops. snd (max_spi_config p h d w) = w\<lparr>trace := trace w @ op # ops\<rparr>
     \<and> is_init op \<and> filter is_init ops = [] \<and> filter is_transaction (op # ops) = []"
proof -
  let ?ext = "drop (length (trace w)) (trace (snd (max_spi_config p h d w)))"
  from max_spi_config_ext [of p h d w] have
    e: "snd (max_spi_config p h d w) = w\<lparr>trace := trace w @ ?ext\<rparr>" "?ext \<noteq> []"
      "is_init (hd ?ext)" "filter is_init (tl ?ext) = []" "filter is_transaction ?ext = []"
    by simp_all
  from e(2) obtain op ops where o: "?ext = op # ops"
    by (cases ?ext) auto
  with e show ?thesis
    by (intro exI [of _ op] exI [of _ ops]) simp
qed

lemma max_spi_config_ok:
  assumes "hal_config_ok h" and "mode_switch (mode d) \<noteq> None"
  shows "fst (max_spi_config p h d w) = 0"
  using assms
  by (auto simp: max_spi_config_def vendor_call_def hal_config_ok_def Let_def
      split: option.splits)

text \<open>
  C7. In a \<^verbatim>\<open>max_spi_transfer\<close> call with a descriptor and a message array, if the chip-select
  index of the descriptor differs from the entry of \<^verbatim>\<open>last_slave_id\<close> for its instance, the
  configuration step runs before any message is executed: its operations, which start with
  \<^verbatim>\<open>MXC_SPI_Init\<close> and hold no transaction, come first in what the call adds to the trace.
  If the step fails, the call returns its error, with the table unchanged and nothing else
  done; if it succeeds, the table entry is the chip-select index when the call returns.
\<close>

theorem C7_configuration_before_messages:
  assumes "unat (device_id d) < MXC_SPI_INSTANCES p"
    and "ucast (chip_select d) \<noteq> last_slave_id w (device_id d)"
  shows "\<exists>op ops. is_init op \<and> filter is_transaction (op # ops) = []
    \<and> trace (snd (max_spi_config p h d w)) = trace w @ op # ops
    \<and> (fst (max_spi_config p h d w) \<noteq> 0 \<longrightarrow>
         (\<exists>wz. max_spi_transfer p h (Some d) (Some ms) len w
             = Some (fst (max_spi_config p h d w), wz)
           \<and> last_slave_id wz = last_slave_id w \<and> trace wz = trace w @ op # ops))
    \<and> (fst (max_spi_config p h d w) = 0 \<longrightarrow>
         (\<forall>r wz. max_spi_transfer p h (Some d) (Some ms) len w = Some (r, wz) \<longrightarrow>
            last_slave_id wz = (last_slave_id w)(device_id d := ucast (chip_select d))
            \<and> (\<exists>ext. trace wz = trace w @ op # ops @ ext)))
    \<and> (fst (max_spi_config p h d w) = 0 \<and> clock_ok h (device_id d) \<and> unat len \<le> length ms \<longrightarrow>
         (\<exists>r wz. max_spi_transfer p h (Some d) (Some ms) len w = Some (r, wz)))"
proof -
  obtain ret w1 where cfg: "max_spi_config p h d w = (ret, w1)"
    by (cases "max_spi_config p h d w")
  from max_spi_config_frame [of p h d w] cfg obtain op ops where
    w1: "w1 = w\<lparr>trace := trace w @ op # ops\<rparr>" and op: "is_init op"
      "filter is_transaction (op # ops) = []"
    by auto
  let ?w2 = "w1\<lparr>last_slave_id := (last_slave_id w1)(device_id d := ucast (chip_select d))\<rparr>"
  have fail: "max_spi_transfer p h (Some d) (Some ms) len w = Some (ret, w1)" if "ret \<noteq> 0"
    using assms cfg that by (simp add: max_spi_transfer_def)
  have succ: "max_spi_transfer p h (Some d) (Some ms) len w
      = transfer_loop p h d ms (unat len) 0 ?w2" if "ret = 0"
    using assms cfg that by (simp add: max_spi_transfer_def)
  have after: "last_slave_id wz = (last_slave_id w)(device_id d := ucast (chip_select d))
      \<and> (\<exists>ext. trace wz = trace w @ op # ops @ ext)"
    if "ret = 0" "max_spi_transfer p h (Some d) (Some ms) len w = Some (r, wz)" for r wz
    using transfer_loop_frame [of p h d ms "unat len" 0 ?w2 r wz] succ that w1 by auto
  have total: "\<exists>r wz. max_spi_transfer p h (Some d) (Some ms) len w = Some (r, wz)"
    if "ret = 0" "clock_ok h (device_id d)" "unat len \<le> length ms"
    using transfer_loop_total [OF assms(1) that(2,3), of 0 ?w2] succ that(1) by simp
  show ?thesis
    using cfg w1 op fail after total
    by (intro exI [of _ op] exI [of _ ops]) auto
qed

theorem C7_witness:
  "unat (device_id (desc_fixture 1)) < MXC_SPI_INSTANCES max78000
   \<and> ucast (chip_select (desc_fixture 1)) \<noteq> last_slave_id (world_fixture 0 0 0x0101)
        (device_id (desc_fixture 1))
   \<and> map_option (\<lambda>r. (fst r, last_slave_id (snd r) 0, trace (snd r)))
       (max_spi_transfer max78000 (hal_fixture 50000000 0) (Some (desc_fixture 1))
          (Some [msg_fixture 0 0]) 1 (world_fixture 0 0 0x0101))
     = Some (0, 1,
         [MXC_SPI_Init 0 1 0 1 0 1000000
            \<lparr> clock = True, ss0 = False, ss1 = True, ss2 = False, miso = True, mosi = True,
              sdio2 = False, sdio3 = False, vddioh = 0 \<rparr>,
          MXC_SPI_SetMode 0 SPI_MODE_0, MXC_SPI_SetWidth 0 SPI_WIDTH_STANDARD,
          MXC_SPI_SetDataSize 0 8,
          MXC_SPI_MasterTransaction (transfer_req (desc_fixture 1) (msg_fixture 0 0)),
          no_os_udelay 0])
   \<and> map_option (\<lambda>r. (fst r, last_slave_id (snd r) 0, trace (snd r)))
       (max_spi_transfer max78000 (hal_fixture_config 50000000 (- 1)) (Some (desc_fixture 1))
          (Some [msg_fixture 0 0]) 1 (world_fixture 0 0 0x0101))
     = Some (- 22, 0,
         [MXC_SPI_Init 0 1 0 1 0 1000000
            \<lparr> clock = True, ss0 = False, ss1 = True, ss2 = False, miso = True, mosi = True,
              sdio2 = False, sdio3 = False, vddioh = 0 \<rparr>,
          MXC_SPI_Shutdown 0])"
  using C7_configuration_before_messages [of "desc_fixture 1" max78000 "world_fixture 0 0 0x0101"
      "hal_fixture 50000000 0" "[msg_fixture 0 0]" 1]
  by (simp add: run_defs max_spi_transfer_def max_spi_config_def err_init_def mode_switch_def
      SPI_MASTER_MODE_def SPI_SINGLE_MODE_def transfer_loop.simps)

subsection \<open>How often the configuration step runs\<close>

lemma max_spi_transfer_count:
  assumes dev: "unat (device_id d) < MXC_SPI_INSTANCES p" and clk: "clock_ok h (device_id d)"
    and ok: "hal_config_ok h" and m: "mode_switch (mode d) \<noteq> None"
    and len: "unat len \<le> length ms"
  shows "\<exists>r wz. max_spi_transfer p h (Some d) (Some ms) len w = Some (r, wz)
    \<and> last_slave_id wz = (last_slave_id w)(device_id d := ucast (chip_select d))
    \<and> config_count wz = config_count w
        + (if ucast (chip_select d) \<noteq> last_slave_id w (device_id d) then 1 else 0)"
proof (cases "ucast (chip_select d) = last_slave_id w (device_id d)")
  case True
  then have eq: "max_spi_transfer p h (Some d) (Some ms) len w
      = transfer_loop p h d ms (unat len) 0 w"
    using dev by (simp add: max_spi_transfer_def)
  from transfer_loop_total [OF dev clk len, of 0 w] obtain r wz where
    l: "transfer_loop p h d ms (unat len) 0 w = Some (r, wz)"
    by blast
  from transfer_loop_frame [OF l] True have
    "last_slave_id wz = (last_slave_id w)(device_id d := ucast (chip_select d))"
    "config_count wz = config_count w"
    by (auto simp: config_count_def)
  with eq l True show ?thesis
    by simp
next
  case False
  obtain ret w1 where cfg: "max_spi_config p h d w = (ret, w1)"
    by (cases "max_spi_config p h d w")
  from max_spi_config_ok [OF ok m, of p w] cfg have ret: "ret = 0"
    by simp
  from max_spi_config_frame [of p h d w] cfg obtain op ops where
    w1: "w1 = w\<lparr>trace := trace w @ op # ops\<rparr>" and op: "is_init op" "filter is_init ops = []"
    by auto
  let ?w2 = "w1\<lparr>last_slave_id := (last_slave_id w1)(device_id d := ucast (chip_select d))\<rparr>"
  have eq: "max_spi_transfer p h (Some d) (Some ms) len w
      = transfer_loop p h d ms (unat len) 0 ?w2"
    using dev False cfg ret by (simp add: max_spi_transfer_def)
  from transfer_loop_total [OF dev clk len, of 0 ?w2] obtain r wz where
    l: "transfer_loop p h d ms (unat len) 0 ?w2 = Some (r, wz)"
    by blast
  from transfer_loop_frame [OF l] w1 op have
    "last_slave_id wz = (last_slave_id w)(device_id d := ucast (chip_select d))"
    "config_count wz = config_count w + 1"
    by (auto simp: config_count_def)
  with eq l False show ?thesis
    by simp
qed

lemma transfer_calls_count:
  assumes dev: "unat dev < MXC_SPI_INSTANCES p" and clk: "clock_ok h dev"
    and ok: "hal_config_ok h"
    and calls: "\<forall>c \<in> set calls. device_id (fst c) = dev \<and> mode_switch (mode (fst c)) \<noteq> None"
  shows "\<exists>wz. transfer_calls p h calls w = Some wz
    \<and> config_count wz = config_count w
        + cs_changes (last_slave_id w dev) (map call_slave_id calls)"
  using calls
proof (induction calls arbitrary: w)
  case Nil
  then show ?case
    by simp
next
  case (Cons c cs)
  then have c: "device_id (fst c) = dev" "mode_switch (mode (fst c)) \<noteq> None"
    by simp_all
  have len: "unat (of_nat (length (snd c)) :: u32) \<le> length (snd c)"
    by (simp add: unat_of_nat)
  from max_spi_transfer_count [of "fst c" p h "of_nat (length (snd c))" "snd c" w]
    dev clk ok c len
  obtain r w1 where
    t: "max_spi_transfer p h (Some (fst c)) (Some (snd c)) (of_nat (length (snd c))) w
        = Some (r, w1)"
    and l: "last_slave_id w1 dev = call_slave_id c"
    and n: "config_count w1 = config_count w
        + (if call_slave_id c \<noteq> last_slave_id w dev then 1 else 0)"
    by (auto simp: call_slave_id_def)
  from Cons.IH [of w1] Cons.prems obtain wz where
    "transfer_calls p h cs w1 = Some wz"
    "config_count wz = config_count w1
        + cs_changes (last_slave_id w1 dev) (map call_slave_id cs)"
    by auto
  with t l n show ?case
    by simp
qed

lemma cs_changes_same:
  "\<forall>x \<in> set xs. x = cs \<Longrightarrow> cs_changes prev xs = (if xs \<noteq> [] \<and> prev \<noteq> cs then 1 else 0)"
  by (induction xs arbitrary: prev) auto

lemma cs_changes_alternating:
  "a \<noteq> b \<Longrightarrow> alternating a b xs \<Longrightarrow>
     cs_changes prev xs = length xs - (if xs \<noteq> [] \<and> prev = a then 1 else 0)"
proof (induction xs arbitrary: a b prev)
  case Nil
  then show ?case
    by simp
next
  case (Cons x xs)
  then have x: "x = a" and alt: "alternating b a xs"
    by simp_all
  from Cons.IH [of b a a] Cons.prems(1) alt have "cs_changes a xs = length xs"
    by auto
  with x show ?case
    by simp
qed

text \<open>
  C8, as the specification has it: for a sequence that addresses the same chip-select index
  again and again the configuration step runs exactly once, and for a sequence that
  alternates between two indices it runs every time. The table \<^verbatim>\<open>last_slave_id\<close> is zero at
  program start and has no value for "unset": with chip select 0 on a fresh table, a call
  with three messages and a second call run the step not once but never; and in calls that
  alternate between chip selects 0 and 1 it does not run in the first of four.
\<close>

theorem C8_fresh_table_chip_select_zero:
  "map_option config_count
     (transfer_calls max78000 (hal_fixture 50000000 0)
        [(desc_fixture 0, [msg_fixture 0 0, msg_fixture 0 0, msg_fixture 0 0]),
         (desc_fixture 0, [msg_fixture 0 0])]
        (world_fixture 0 0 0x0101)) = Some 0
   \<and> map_option config_count
     (transfer_calls max78000 (hal_fixture 50000000 0)
        [(desc_fixture 0, [msg_fixture 0 0]), (desc_fixture 1, [msg_fixture 0 0]),
         (desc_fixture 0, [msg_fixture 0 0]), (desc_fixture 1, [msg_fixture 0 0])]
        (world_fixture 0 0 0x0101)) = Some 3"
  by (simp add: run_defs max_spi_transfer_def max_spi_config_def err_init_def mode_switch_def
      SPI_MASTER_MODE_def SPI_SINGLE_MODE_def transfer_loop.simps config_count_def)

text \<open>
  C8, amended. The chip-select index belongs to the descriptor, and the table is compared
  once in a call, before the loop over the messages. Over a sequence of calls on one bus
  instance whose configuration steps succeed, each call with any number of messages: if
  every call has the same chip-select index, the configuration step runs once when the table
  entry differed from that index before the first call, and never otherwise (never once
  per message); if the index alternates between two different values \<open>a\<close> and \<open>b\<close> from
  call to call, the step runs in every call, but for the first when the table entry was
  \<open>a\<close> already.
\<close>

theorem C8_configuration_runs_on_change_only:
  assumes "unat dev < MXC_SPI_INSTANCES p" and "clock_ok h dev" and "hal_config_ok h"
    and "\<forall>c \<in> set calls. device_id (fst c) = dev \<and> mode_switch (mode (fst c)) \<noteq> None"
  shows "\<exists>wz. transfer_calls p h calls w = Some wz
    \<and> ((\<forall>c \<in> set calls. call_slave_id c = cs) \<longrightarrow>
         config_count wz = config_count w
           + (if calls \<noteq> [] \<and> last_slave_id w dev \<noteq> cs then 1 else 0))
    \<and> (a \<noteq> b \<and> alternating a b (map call_slave_id calls) \<longrightarrow>
         config_count wz = config_count w
           + (length calls - (if calls \<noteq> [] \<and> last_slave_id w dev = a then 1 else 0)))"
proof -
  from transfer_calls_count [OF assms, of w] obtain wz where
    wz: "transfer_calls p h calls w = Some wz"
      "config_count wz = config_count w
        + cs_changes (last_slave_id w dev) (map call_slave_id calls)"
    by blast
  have same: "cs_changes (last_slave_id w dev) (map call_slave_id calls)
      = (if calls \<noteq> [] \<and> last_slave_id w dev \<noteq> cs then 1 else 0)"
    if "\<forall>c \<in> set calls. call_slave_id c = cs"
    using cs_changes_same [of "map call_slave_id calls" cs "last_slave_id w dev"] that by simp
  have alt: "cs_changes (last_slave_id w dev) (map call_slave_id calls)
      = length calls - (if calls \<noteq> [] \<and> last_slave_id w dev = a then 1 else 0)"
    if "a \<noteq> b" "alternating a b (map call_slave_id calls)"
    using cs_changes_alternating [OF that, of "last_slave_id w dev"] by simp
  from wz same alt show ?thesis
    by (intro exI [of _ wz]) simp
qed

theorem C8_witness:
  "unat (0 :: u32) < MXC_SPI_INSTANCES max78000 \<and> clock_ok (hal_fixture 50000000 0) 0
   \<and> hal_config_ok (hal_fixture 50000000 0)
   \<and> map_option config_count
       (transfer_calls max78000 (hal_fixture 50000000 0)
          [(desc_fixture 1, [msg_fixture 0 0, msg_fixture 0 0]), (desc_fixture 1, [msg_fixture 0 0])]
          (world_fixture 0 0 0x0101)) = Some 1
   \<and> map_option config_count
       (transfer_calls max78000 (hal_fixture 50000000 0)
          [(desc_fixture 1, [msg_fixture 0 0]), (desc_fixture 2, [msg_fixture 0 0]),
           (desc_fixture 1, [msg_fixture 0 0])]
          (world_fixture 0 0 0x0101)) = Some 3"
  using
    C8_configuration_runs_on_change_only [of 0 max78000 "hal_fixture 50000000 0"
      "[(desc_fixture 1, [msg_fixture 0 0, msg_fixture 0 0]), (desc_fixture 1, [msg_fixture 0 0])]"
      "world_fixture 0 0 0x0101" 1 1 2]
    C8_configuration_runs_on_change_only [of 0 max78000 "hal_fixture 50000000 0"
      "[(desc_fixture 1, [msg_fixture 0 0]), (desc_fixture 2, [msg_fixture 0 0]),
        (desc_fixture 1, [msg_fixture 0 0])]"
      "world_fixture 0 0 0x0101" 1 1 2]
  by (auto simp: run_defs clock_ok_def hal_config_ok_def mode_switch_def call_slave_id_def
      config_count_def)

end
